theory Spec2Isabelle
  imports Main "HOL-Library.Sublist" "HOL-Library.AList"
begin

section \<open>Strings\<close>

text \<open>
  Go strings are byte sequences; they are modelled as \<^typ>\<open>string\<close> (a list of
  8-bit characters).  \<open>strings.HasPrefix\<close> and \<open>strings.HasSuffix\<close> are the library
  tests used by the proxy: length test first, then comparison of the slice.
\<close>

definition HasPrefix :: "string \<Rightarrow> string \<Rightarrow> bool" where
  "HasPrefix s pre = (length pre \<le> length s \<and> take (length pre) s = pre)"

definition HasSuffix :: "string \<Rightarrow> string \<Rightarrow> bool" where
  "HasSuffix s suf = (length suf \<le> length s \<and> drop (length s - length suf) s = suf)"

section \<open>Joining two paths with a single slash\<close>

text \<open>
  \<open>singleJoiningSlash\<close> (http.go, lines 71--81).  The \<open>switch\<close> has two cases and
  falls through to the plain concatenation; \<open>b[1:]\<close> is only evaluated when \<open>b\<close>
  starts with a slash, so the slice is always in range.
\<close>

definition singleJoiningSlash :: "string \<Rightarrow> string \<Rightarrow> string" where
  "singleJoiningSlash a b =
     (let aslash = HasSuffix a ''/'';
          bslash = HasPrefix b ''/''
      in if aslash \<and> bslash then a @ drop 1 b
         else if \<not> aslash \<and> \<not> bslash then a @ ''/'' @ b
         else a @ b)"

section \<open>URLs and the Director\<close>

text \<open>
  The fields of \<open>url.URL\<close> that the proxy reads or writes.
\<close>

record url =
  Scheme :: string
  Host :: string
  Path :: string
  RawPath :: string
  RawQuery :: string

text \<open>
  The closure \<open>director\<close> built by \<open>newSingleHostReverseProxy\<close> (http.go, lines
  88--98).  It receives the outbound request and assigns to the fields of the URL object
  that \<open>req.URL\<close> points to, one after the other; every later right-hand side reads the
  object as already updated.  The model is the function from the URL object before the
  call to the URL object after it; \<open>target\<close> is the captured target URL.
\<close>

definition director :: "url \<Rightarrow> url \<Rightarrow> url" where
  "director target u =
     (let u1 = u\<lparr>Scheme := Scheme target\<rparr>;
          u2 = u1\<lparr>Host := Host target\<rparr>;
          u3 = u2\<lparr>Path := singleJoiningSlash (Path target) (Path u2)\<rparr>;
          q = RawQuery u3;
          u4 = (if q \<noteq> '''' then u3\<lparr>RawPath := Path u3 @ ''?'' @ q\<rparr>
                else u3\<lparr>RawPath := Path u3\<rparr>)
      in u4\<lparr>RawQuery := RawQuery target\<rparr>)"

section \<open>Header maps\<close>

text \<open>
  \<open>http.Header\<close> is \<open>map[string][]string\<close>.  It is modelled as an association list:
  \<open>map_of\<close> is the lookup \<open>h[k]\<close>, and the order of the list stands for the order in
  which \<open>range\<close> happens to visit the entries.  An entry whose value is the nil slice
  behaves like a missing entry under every operation the proxy uses, so it is
  represented by the missing entry; an entry with value \<open>[]\<close> is the empty, non-nil
  slice.  A Go map has each key once; nothing below depends on it.

  \<open>Get\<close>, \<open>Add\<close>, \<open>Set\<close> and \<open>Del\<close> canonicalise the key with
  \<open>textproto.CanonicalMIMEHeaderKey\<close>: a key with a byte that is not a header token
  byte is left alone, otherwise the first letter and every letter after a hyphen is put
  in upper case and every other letter in lower case.
\<close>

type_synonym header = "(string \<times> string list) list"

definition validHeaderFieldByte :: "char \<Rightarrow> bool" where
  "validHeaderFieldByte c =
     (let n = (of_char c :: nat)
      in (48 \<le> n \<and> n \<le> 57) \<or> (65 \<le> n \<and> n \<le> 90) \<or> (97 \<le> n \<and> n \<le> 122)
         \<or> n \<in> {33, 35, 36, 37, 38, 39, 42, 43, 45, 46, 94, 95, 96, 124, 126})"

primrec canonicalMIMEHeaderKey :: "bool \<Rightarrow> string \<Rightarrow> string" where
  "canonicalMIMEHeaderKey upper [] = []"
| "canonicalMIMEHeaderKey upper (c # cs) =
     (let n = (of_char c :: nat);
          c' = (if upper \<and> 97 \<le> n \<and> n \<le> 122 then char_of (n - 32)
                else if \<not> upper \<and> 65 \<le> n \<and> n \<le> 90 then char_of (n + 32)
                else c)
      in c' # canonicalMIMEHeaderKey (c' = CHR ''-'') cs)"

definition CanonicalMIMEHeaderKey :: "string \<Rightarrow> string" where
  "CanonicalMIMEHeaderKey s =
     (if list_all validHeaderFieldByte s then canonicalMIMEHeaderKey True s else s)"

definition Get :: "header \<Rightarrow> string \<Rightarrow> string" where
  "Get h key =
     (case map_of h (CanonicalMIMEHeaderKey key) of
        None \<Rightarrow> ''''
      | Some [] \<Rightarrow> ''''
      | Some (v # _) \<Rightarrow> v)"

definition Add :: "header \<Rightarrow> string \<Rightarrow> string \<Rightarrow> header" where
  "Add h key v =
     (let k = CanonicalMIMEHeaderKey key
      in AList.update k ((case map_of h k of None \<Rightarrow> [] | Some vs \<Rightarrow> vs) @ [v]) h)"

definition Set :: "header \<Rightarrow> string \<Rightarrow> string \<Rightarrow> header" where
  "Set h key v = AList.update (CanonicalMIMEHeaderKey key) [v] h"

definition Del :: "header \<Rightarrow> string \<Rightarrow> header" where
  "Del h key = AList.delete (CanonicalMIMEHeaderKey key) h"

text \<open>
  \<open>copyHeader\<close> (http.go, lines 112--118): for every entry of \<open>src\<close> and every value of
  the entry, \<open>dst.Add(k, v)\<close>.  The function returns the destination map after the loop.
\<close>

definition copyHeader :: "header \<Rightarrow> header \<Rightarrow> header" where
  "copyHeader dst src = fold (\<lambda>(k, vv) d. fold (\<lambda>v d'. Add d' k v) vv d) src dst"

section \<open>Splitting the remote address\<close>

text \<open>
  \<open>net.SplitHostPort\<close>: the port starts after the last colon; a host in square
  brackets may hold colons, a host without brackets may not; no further bracket may
  appear.  (Where a last colon exists the string is not empty, so \<open>hostport[0]\<close> is in
  range; \<open>hostport[end+1]\<close> is read only when \<open>end + 1\<close> is less than the length.)
\<close>

datatype AddrError =
  MissingPort | TooManyColons | MissingBracket | UnexpectedOpen | UnexpectedClose

fun IndexByte :: "string \<Rightarrow> char \<Rightarrow> nat option" where
  "IndexByte [] c = None"
| "IndexByte (x # xs) c = (if x = c then Some 0 else map_option Suc (IndexByte xs c))"

definition LastIndexByte :: "string \<Rightarrow> char \<Rightarrow> nat option" where
  "LastIndexByte s c =
     (case IndexByte (rev s) c of None \<Rightarrow> None | Some i \<Rightarrow> Some (length s - 1 - i))"

definition SplitHostPort :: "string \<Rightarrow> AddrError + string \<times> string" where
  "SplitHostPort hostport =
     (case LastIndexByte hostport CHR '':'' of
        None \<Rightarrow> Inl MissingPort
      | Some i \<Rightarrow>
          let rest = (\<lambda>host j k.
                if IndexByte (drop j hostport) CHR ''['' \<noteq> None then Inl UnexpectedOpen
                else if IndexByte (drop k hostport) CHR '']'' \<noteq> None then Inl UnexpectedClose
                else Inr (host, drop (i + 1) hostport))
          in if hostport ! 0 = CHR ''['' then
               (case IndexByte hostport CHR '']'' of
                  None \<Rightarrow> Inl MissingBracket
                | Some e \<Rightarrow>
                    if e + 1 = length hostport then Inl MissingPort
                    else if e + 1 = i then rest (take (e - 1) (drop 1 hostport)) 1 (e + 1)
                    else if hostport ! (e + 1) = CHR '':'' then Inl TooManyColons
                    else Inl MissingPort)
             else
               (let host = take i hostport
                in if IndexByte host CHR '':'' \<noteq> None then Inl TooManyColons
                   else rest host 0 0))"

section \<open>Requests, responses and the store\<close>

text \<open>
  \<open>*outreq = *req\<close> copies the request structure, so the inbound and the outbound
  request share the URL object and the header map they point to.  The store keeps the
  URL objects and the header maps; a request holds references into it.  A reference is
  \<open>None\<close> for a nil pointer or a nil map.  Reading a nil map yields no entry, assigning
  to it panics, and so does an access through a nil URL pointer.  (An address past the
  end of the store is treated like nil; no Go value is such a reference.)

  Only the fields of \<open>http.Request\<close> that the handler reads or writes are kept; the field
  \<open>Host\<close> of the request is called \<open>ReqHost\<close> here, since \<open>Host\<close> is the field of the URL.
\<close>

record request =
  URL :: "nat option"
  Proto :: string
  ProtoMajor :: int
  ProtoMinor :: int
  Header :: "nat option"
  Close :: bool
  ReqHost :: string
  RemoteAddr :: string

record heap =
  urls :: "url list"
  hmaps :: "header list"

definition load_url :: "heap \<Rightarrow> nat option \<Rightarrow> (nat \<times> url) option" where
  "load_url h r =
     (case r of
        None \<Rightarrow> None
      | Some a \<Rightarrow> if a < length (urls h) then Some (a, urls h ! a) else None)"

definition store_url :: "heap \<Rightarrow> nat \<Rightarrow> url \<Rightarrow> heap" where
  "store_url h a u = h\<lparr>urls := (urls h)[a := u]\<rparr>"

definition load_header :: "heap \<Rightarrow> nat option \<Rightarrow> header" where
  "load_header h r =
     (case r of
        None \<Rightarrow> []
      | Some a \<Rightarrow> if a < length (hmaps h) then hmaps h ! a else [])"

definition update_header :: "heap \<Rightarrow> nat option \<Rightarrow> (header \<Rightarrow> header) \<Rightarrow> heap option" where
  "update_header h r f =
     (case r of
        None \<Rightarrow> None
      | Some a \<Rightarrow>
          if a < length (hmaps h) then Some (h\<lparr>hmaps := (hmaps h)[a := f (hmaps h ! a)]\<rparr>)
          else None)"

text \<open>\<open>make(http.Header)\<close>: a new, empty map at an address not in use.\<close>

definition make_header :: "heap \<Rightarrow> heap \<times> nat" where
  "make_header h = (h\<lparr>hmaps := hmaps h @ [[]]\<rparr>, length (hmaps h))"

text \<open>
  The body of a backend response is a stream: the data that successive \<open>Read\<close> calls
  deliver, and whether the stream then ends with an error rather than with end-of-file.
  \<open>body_state\<close> is what has become of the stream when the handler is done with it: the
  data not read, whether end-of-file was reached, and whether \<open>Close\<close> was called.
\<close>

record body =
  chunks :: "string list"
  broken :: bool

record body_state =
  unread :: "string list"
  at_eof :: bool
  closed :: bool

definition untouched :: "body \<Rightarrow> body_state" where
  "untouched b = \<lparr>unread = chunks b, at_eof = False, closed = False\<rparr>"

record response =
  StatusCode :: int
  ResHeader :: header
  Body :: "body option"

text \<open>
  A \<open>RoundTripper\<close> sees the outbound request and the store it points into, and returns
  an error or a response.
\<close>

type_synonym RoundTripper = "heap \<Rightarrow> request \<Rightarrow> string + response"

section \<open>The proxy\<close>

text \<open>
  \<open>ReverseProxy\<close> (http.go, lines 50--69).  The only Director of the repository is the
  closure of \<open>newSingleHostReverseProxy\<close>, which assigns to the URL object of the request
  and to nothing else; the field is the function on that object.
\<close>

record ReverseProxy =
  Director :: "url \<Rightarrow> url"
  Transport :: "RoundTripper option"
  FlushInterval :: int
  DomainProxy :: string
  Domain :: string
  forbiddens :: "string list"

definition newSingleHostReverseProxy :: "url \<Rightarrow> ReverseProxy" where
  "newSingleHostReverseProxy target =
     \<lparr>Director = director target, Transport = None, FlushInterval = 0,
      DomainProxy = '''', Domain = '''', forbiddens = []\<rparr>"

text \<open>\<open>New\<close> (lines 102--110); \<open>url_Parse\<close> stands for the library's \<open>url.Parse\<close>.\<close>

definition New :: "(string \<Rightarrow> string + url) \<Rightarrow> string \<Rightarrow> string \<Rightarrow> string + ReverseProxy" where
  "New url_Parse domainProxy domain =
     (case url_Parse (''http://'' @ domainProxy) of
        Inl err \<Rightarrow> Inl err
      | Inr u \<Rightarrow>
          Inr ((newSingleHostReverseProxy u)\<lparr>DomainProxy := domainProxy, Domain := domain\<rparr>))"

definition Forbidden :: "ReverseProxy \<Rightarrow> string \<Rightarrow> ReverseProxy" where
  "Forbidden p pre = p\<lparr>forbiddens := forbiddens p @ [pre]\<rparr>"

section \<open>The client side\<close>

text \<open>
  \<open>http.ResponseWriter\<close> is an interface of the server runtime.  The model records what
  the handler has done to it: the header map of the response, the status code sent
  (the first \<open>WriteHeader\<close> counts; a \<open>Write\<close> before it sends 200), and the body bytes
  the client side has accepted.  \<open>room\<close> says when writes start to fail: never
  (\<open>None\<close>), or once \<open>k\<close> more bytes have been accepted (\<open>Some k\<close>); a failing \<open>Write\<close>
  accepts what still fits and returns an error.  \<open>canFlush\<close> says whether the writer also
  is a \<open>writeFlusher\<close> (lines 211--214).
\<close>

record ResponseWriter =
  rwHeader :: header
  status :: "int option"
  wrote :: string
  room :: "nat option"
  canFlush :: bool

definition WriteHeader :: "ResponseWriter \<Rightarrow> int \<Rightarrow> ResponseWriter" where
  "WriteHeader rw code = (if status rw = None then rw\<lparr>status := Some code\<rparr> else rw)"

definition rw_Write :: "ResponseWriter \<Rightarrow> string \<Rightarrow> ResponseWriter \<times> nat \<times> bool" where
  "rw_Write rw p =
     (let rw1 = WriteHeader rw 200
      in case room rw1 of
           None \<Rightarrow> (rw1\<lparr>wrote := wrote rw1 @ p\<rparr>, length p, False)
         | Some k \<Rightarrow>
             if length p \<le> k
             then (rw1\<lparr>wrote := wrote rw1 @ p, room := Some (k - length p)\<rparr>, length p, False)
             else (rw1\<lparr>wrote := wrote rw1 @ take k p, room := Some 0\<rparr>, k, True))"

text \<open>
  \<open>maxLatencyWriter\<close> (lines 216--236), as the copying goroutine sees it.  \<open>started\<close>
  says that \<open>m.done\<close> has been made and \<open>flushLoop\<close> launched; \<open>stop_sends\<close> counts the
  executions of \<open>m.done <- true\<close>.  \<open>Write\<close> makes the channel and starts the loop on its
  first call, passes the bytes to the underlying writer, and sends on \<open>m.done\<close> when that
  write returned an error.  The interleaving with \<open>flushLoop\<close> is the subject of the
  section on the flush task below.
\<close>

record maxLatencyWriter =
  started :: bool
  stop_sends :: nat

definition mlw_Write ::
  "maxLatencyWriter \<Rightarrow> ResponseWriter \<Rightarrow> string
     \<Rightarrow> maxLatencyWriter \<times> ResponseWriter \<times> nat \<times> bool" where
  "mlw_Write m rw p =
     (let m1 = (if \<not> started m then m\<lparr>started := True\<rparr> else m);
          (rw', n, err) = rw_Write rw p;
          m2 = (if err then m1\<lparr>stop_sends := stop_sends m1 + 1\<rparr> else m1)
      in (m2, rw', n, err))"

text \<open>
  The destination \<open>dst\<close> of the body copy is the response writer itself (\<open>None\<close>) or a
  \<open>maxLatencyWriter\<close> around it (\<open>Some m\<close>).
\<close>

definition dst_Write ::
  "maxLatencyWriter option \<Rightarrow> ResponseWriter \<Rightarrow> string
     \<Rightarrow> maxLatencyWriter option \<times> ResponseWriter \<times> nat \<times> bool" where
  "dst_Write d rw p =
     (case d of
        None \<Rightarrow> (let (rw', n, err) = rw_Write rw p in (None, rw', n, err))
      | Some m \<Rightarrow> (let (m', rw', n, err) = mlw_Write m rw p in (Some m', rw', n, err)))"

text \<open>
  \<open>io.Copy(dst, src)\<close> for a stream \<open>src\<close>: read a chunk, write it, stop at the first
  write that fails or is short, at a read error or at end-of-file.  The loop returns the
  chunks it has not read and whether a write stopped it.
\<close>

fun copy_loop ::
  "maxLatencyWriter option \<Rightarrow> ResponseWriter \<Rightarrow> string list
     \<Rightarrow> maxLatencyWriter option \<times> ResponseWriter \<times> string list \<times> bool" where
  "copy_loop d rw [] = (d, rw, [], False)"
| "copy_loop d rw (c # cs) =
     (if c = [] then copy_loop d rw cs
      else (case dst_Write d rw c of
              (d', rw', n, err) \<Rightarrow>
                if err \<or> n \<noteq> length c then (d', rw', cs, True)
                else copy_loop d' rw' cs))"

definition io_Copy ::
  "maxLatencyWriter option \<Rightarrow> ResponseWriter \<Rightarrow> body
     \<Rightarrow> maxLatencyWriter option \<times> ResponseWriter \<times> body_state" where
  "io_Copy d rw b =
     (let (d', rw', rest, stopped) = copy_loop d rw (chunks b)
      in (d', rw', \<lparr>unread = rest, at_eof = (\<not> stopped \<and> \<not> broken b), closed = False\<rparr>))"

text \<open>
  \<open>io.Copy(buf, res.Body)\<close> into a fresh \<open>bytes.Buffer\<close> reads the stream to its end:
  the buffer holds all the data, and end-of-file is reached unless the stream is broken.
\<close>

definition read_all :: "body \<Rightarrow> string \<times> body_state" where
  "read_all b = (concat (chunks b), \<lparr>unread = [], at_eof = \<not> broken b, closed = False\<rparr>)"

text \<open>
  \<open>io.Copy(dst, bytes.NewBuffer(b))\<close> hands the whole buffer to one \<open>Write\<close>, and calls
  no \<open>Write\<close> for an empty buffer.
\<close>

definition write_buffer ::
  "maxLatencyWriter option \<Rightarrow> ResponseWriter \<Rightarrow> string
     \<Rightarrow> maxLatencyWriter option \<times> ResponseWriter" where
  "write_buffer d rw b =
     (if b = [] then (d, rw)
      else (case dst_Write d rw b of (d', rw', n, err) \<Rightarrow> (d', rw')))"

section \<open>Replacing a byte string\<close>

text \<open>
  \<open>bytes.Index\<close>, \<open>bytes.Count\<close> and \<open>bytes.Replace\<close> of the library.  \<open>Index s sep\<close> is
  the position of the first occurrence of \<open>sep\<close> in \<open>s\<close>.  \<open>Count\<close> counts the occurrences
  from left to right without overlap; the empty byte string is counted once before
  every UTF-8 sequence and once at the end.  \<open>Replace\<close> with \<open>n = -1\<close> counts first and
  then runs its loop once per occurrence: copy up to the occurrence, copy \<open>new\<close>, go on
  behind the occurrence; the rest of \<open>s\<close> is copied after the loop.
\<close>

fun Index :: "string \<Rightarrow> string \<Rightarrow> nat option" where
  "Index [] sep = (if sep = [] then Some 0 else None)"
| "Index (x # xs) sep =
     (if HasPrefix (x # xs) sep then Some 0 else map_option Suc (Index xs sep))"

text \<open>
  The number of bytes of the first UTF-8 sequence of \<open>p\<close> (the size that
  \<open>utf8.DecodeRune\<close> returns): a byte that starts no well-formed sequence counts alone.
\<close>

definition continuation :: "char \<Rightarrow> bool" where
  "continuation c = (128 \<le> (of_char c :: nat) \<and> (of_char c :: nat) \<le> 191)"

definition second_ok :: "nat \<Rightarrow> char \<Rightarrow> bool" where
  "second_ok p0 c =
     (let lo = (if p0 = 224 then 160 else if p0 = 240 then 144 else 128);
          hi = (if p0 = 237 then 159 else if p0 = 244 then 143 else 191)
      in lo \<le> (of_char c :: nat) \<and> (of_char c :: nat) \<le> hi)"

fun rune_width :: "string \<Rightarrow> nat" where
  "rune_width [] = 0"
| "rune_width (c # cs) =
     (let p0 = (of_char c :: nat)
      in if p0 < 194 \<or> 244 < p0 then 1
         else if p0 \<le> 223 then
           (case cs of b1 # _ \<Rightarrow> if second_ok p0 b1 then 2 else 1 | _ \<Rightarrow> 1)
         else if p0 \<le> 239 then
           (case cs of
              b1 # b2 # _ \<Rightarrow> if second_ok p0 b1 \<and> continuation b2 then 3 else 1
            | _ \<Rightarrow> 1)
         else
           (case cs of
              b1 # b2 # b3 # _ \<Rightarrow>
                if second_ok p0 b1 \<and> continuation b2 \<and> continuation b3 then 4 else 1
            | _ \<Rightarrow> 1))"

lemma rune_width_pos: "s \<noteq> [] \<Longrightarrow> 0 < rune_width s"
  by (cases s) (auto simp: Let_def split: list.splits)

function RuneCount :: "string \<Rightarrow> nat" where
  "RuneCount s = (if s = [] then 0 else Suc (RuneCount (drop (rune_width s) s)))"
  by pat_completeness auto
termination
  by (relation "measure length") (auto simp: rune_width_pos)

lemma Index_bound: "Index s sep = Some i \<Longrightarrow> i + length sep \<le> length s"
proof (induction s arbitrary: i)
  case Nil
  then show ?case by (simp split: if_splits)
next
  case (Cons x xs)
  show ?case
  proof (cases "HasPrefix (x # xs) sep")
    case True
    with Cons.prems show ?thesis by (simp add: HasPrefix_def)
  next
    case False
    with Cons.prems obtain j where "Index xs sep = Some j" "i = Suc j" by auto
    with Cons.IH show ?thesis by fastforce
  qed
qed

function Count :: "string \<Rightarrow> string \<Rightarrow> nat" where
  "Count s sep =
     (if sep = [] then RuneCount s + 1
      else (case Index s sep of
              None \<Rightarrow> 0
            | Some i \<Rightarrow> Suc (Count (drop (i + length sep) s) sep)))"
  by pat_completeness auto
termination
proof (relation "measure (\<lambda>(s, sep). length s)", goal_cases)
  case 1
  show ?case by simp
next
  case (2 s sep i)
  then have "i + length sep \<le> length s" "0 < length sep"
    using Index_bound [of s sep i] by auto
  then show ?case by (cases sep; cases s; simp)
qed

text \<open>
  The loop of \<open>Replace\<close>, counted down from the number of replacements; \<open>first\<close> says
  that this is the first round (\<open>i = 0\<close>), and the string is what is left of \<open>s\<close> from
  \<open>start\<close> on.  For an empty \<open>old\<close> the first round replaces at the very beginning and
  every later round steps over one UTF-8 sequence.  (The loop runs \<open>Count s old\<close> times,
  so \<open>Index\<close> finds an occurrence in every round; the branch for \<open>None\<close> is never taken.)
\<close>

primrec replace_loop :: "nat \<Rightarrow> bool \<Rightarrow> string \<Rightarrow> string \<Rightarrow> string \<Rightarrow> string" where
  "replace_loop 0 first s old new = s"
| "replace_loop (Suc n) first s old new =
     (let j = (if old = [] then (if first then 0 else rune_width s)
               else (case Index s old of None \<Rightarrow> length s | Some i \<Rightarrow> i))
      in take j s @ new @ replace_loop n False (drop (j + length old) s) old new)"

definition Replace :: "string \<Rightarrow> string \<Rightarrow> string \<Rightarrow> string" where
  "Replace s old new =
     (let m = Count s old
      in if m = 0 then s else replace_loop m True s old new)"

section \<open>Serving one request\<close>

text \<open>
  \<open>ServeHTTP\<close> (http.go, lines 124--209) in three parts.  Calls that only print or log
  (\<open>DumpRequest\<close>, \<open>DumpResponse\<close>, \<open>log\<close>, \<open>println\<close>) are left out.

  First the outbound request (lines 130--154).  \<open>outreq\<close> starts as a copy of the
  structure \<open>req\<close>.  The Director assigns to the URL object of \<open>outreq\<close>, which is the
  URL object of \<open>req\<close>.  If the header map has a first \<open>Connection\<close> value that is not
  empty, \<open>outreq\<close> gets a new map, filled from the map of \<open>req\<close>, and \<open>Connection\<close> is
  deleted from the new map.  If the remote address splits into host and port,
  \<open>X-Forwarded-For\<close> is set in the map \<open>outreq\<close> then has.  At last the host of the URL
  and of the request become \<open>DomainProxy\<close>.  The result is the store, and the outbound
  request unless the handler panicked.
\<close>

definition rewrite_request :: "ReverseProxy \<Rightarrow> heap \<Rightarrow> request \<Rightarrow> heap \<times> request option" where
  "rewrite_request p h req =
     (let outreq = req
      in case load_url h (URL outreq) of
           None \<Rightarrow> (h, None)
         | Some (a, u) \<Rightarrow>
             let h1 = store_url h a (Director p u);
                 outreq1 = outreq\<lparr>Proto := ''HTTP/1.1'', ProtoMajor := 1, ProtoMinor := 1,
                                  Close := False\<rparr>;
                 (h2, outreq2) =
                   (if Get (load_header h1 (Header outreq1)) ''Connection'' \<noteq> '''' then
                      let (h', fresh) = make_header h1;
                          outreq' = outreq1\<lparr>Header := Some fresh\<rparr>;
                          src = load_header h' (Header req);
                          h'' = h'\<lparr>hmaps := (hmaps h')[fresh := copyHeader (hmaps h' ! fresh) src]\<rparr>;
                          h''' = h''\<lparr>hmaps := (hmaps h'')[fresh := Del (hmaps h'' ! fresh) ''Connection'']\<rparr>
                      in (h''', outreq')
                    else (h1, outreq1));
                 forwarded =
                   (case SplitHostPort (RemoteAddr req) of
                      Inr (clientIp, port) \<Rightarrow>
                        update_header h2 (Header outreq2) (\<lambda>m. Set m ''X-Forwarded-For'' clientIp)
                    | Inl err \<Rightarrow> Some h2)
             in case forwarded of
                  None \<Rightarrow> (h2, None)
                | Some h3 \<Rightarrow>
                    let h4 = store_url h3 a ((urls h3 ! a)\<lparr>Host := DomainProxy p\<rparr>);
                        outreq3 = outreq2\<lparr>ReqHost := Host (urls h4 ! a)\<rparr>
                    in (h4, Some outreq3))"

text \<open>
  The redirect filter (lines 173--186).  \<open>l[0]\<close> is out of range when the \<open>Location\<close>
  entry is the empty slice.  The loop over \<open>p.forbiddens\<close> stops at the first prefix of
  the location.
\<close>

datatype check = Yes | No | IndexOutOfRange

primrec scan_forbiddens :: "string \<Rightarrow> string list \<Rightarrow> bool" where
  "scan_forbiddens loc [] = False"
| "scan_forbiddens loc (forbidden # rest) =
     (if HasPrefix loc forbidden then True else scan_forbiddens loc rest)"

definition redirect_filter :: "string list \<Rightarrow> response \<Rightarrow> check" where
  "redirect_filter fs res =
     (if StatusCode res = 301 \<or> StatusCode res = 302 \<or> StatusCode res = 307 then
        (case map_of (ResHeader res) ''Location'' of
           None \<Rightarrow> No
         | Some [] \<Rightarrow> IndexOutOfRange
         | Some (loc # others) \<Rightarrow> if scan_forbiddens loc fs then Yes else No)
      else No)"

text \<open>
  The test for the text substitution (lines 196--198): status 200 and a first
  \<open>Content-Type\<close> value equal to the plain-text type; \<open>ct[0]\<close> is out of range for the
  empty slice.
\<close>

definition plain_text :: "response \<Rightarrow> check" where
  "plain_text res =
     (if StatusCode res = 200 then
        (case map_of (ResHeader res) ''Content-Type'' of
           None \<Rightarrow> No
         | Some [] \<Rightarrow> IndexOutOfRange
         | Some (ct # others) \<Rightarrow> if ct = ''text/plain; charset=utf-8'' then Yes else No)
      else No)"

text \<open>
  How the handler ends: it returns, it panics, or its last step is the send
  \<open>m.done <- true\<close> inside \<open>maxLatencyWriter.Write\<close>.  Nothing follows that send in
  \<open>ServeHTTP\<close> but the return, so the state is final in all three cases; whether the send
  goes through is decided by the flush task.
\<close>

datatype outcome = Returned | Panicked | SendingStop

definition ending :: "maxLatencyWriter option \<Rightarrow> outcome" where
  "ending d =
     (case d of
        None \<Rightarrow> Returned
      | Some m \<Rightarrow> if 0 < stop_sends m then SendingStop else Returned)"

text \<open>
  The body relay (lines 189--208), after the status line has been written.
\<close>

definition relay_body ::
  "ReverseProxy \<Rightarrow> ResponseWriter \<Rightarrow> response
     \<Rightarrow> outcome \<times> ResponseWriter \<times> body_state option \<times> maxLatencyWriter option" where
  "relay_body p rw res =
     (case Body res of
        None \<Rightarrow> (Returned, rw, None, None)
      | Some b \<Rightarrow>
          let dst = (if FlushInterval p \<noteq> 0 \<and> canFlush rw
                     then Some \<lparr>started = False, stop_sends = 0\<rparr> else None)
          in case plain_text res of
               IndexOutOfRange \<Rightarrow> (Panicked, rw, Some (untouched b), dst)
             | Yes \<Rightarrow>
                 let (buf, bs) = read_all b;
                     b' = Replace buf (DomainProxy p) (Domain p);
                     (d', rw') = write_buffer dst rw b'
                 in (ending d', rw', Some bs, d')
             | No \<Rightarrow>
                 let (d', rw', bs) = io_Copy dst rw b
                 in (ending d', rw', Some bs, d'))"

text \<open>
  What one call of \<open>ServeHTTP\<close> leaves behind: how it ended, the store, the outbound
  request (if it was built), the requests handed to \<open>RoundTrip\<close> in order, the response
  writer, the backend body (if there was a response with a body) and the latency writer
  (if one was installed).
\<close>

record result =
  outcome :: outcome
  mem :: heap
  outbound :: "request option"
  sent :: "request list"
  client :: ResponseWriter
  backend_body :: "body_state option"
  latency_writer :: "maxLatencyWriter option"

text \<open>
  The transport of the proxy (lines 125--128): \<open>p.Transport\<close>, or the library's
  \<open>http.DefaultTransport\<close> when the field is nil.
\<close>

definition transport_of :: "RoundTripper \<Rightarrow> ReverseProxy \<Rightarrow> RoundTripper" where
  "transport_of DefaultTransport p =
     (case Transport p of None \<Rightarrow> DefaultTransport | Some t \<Rightarrow> t)"

definition ServeHTTP :: "RoundTripper \<Rightarrow> ReverseProxy \<Rightarrow> heap \<Rightarrow> ResponseWriter \<Rightarrow> request \<Rightarrow> result" where
  "ServeHTTP DefaultTransport p h rw req =
     (let transport = transport_of DefaultTransport p
      in case rewrite_request p h req of
           (h', None) \<Rightarrow>
             \<lparr>outcome = Panicked, mem = h', outbound = None, sent = [], client = rw,
              backend_body = None, latency_writer = None\<rparr>
         | (h', Some outreq) \<Rightarrow>
             (case transport h' outreq of
                Inl err \<Rightarrow>
                  \<lparr>outcome = Returned, mem = h', outbound = Some outreq, sent = [outreq],
                   client = WriteHeader rw 500, backend_body = None, latency_writer = None\<rparr>
              | Inr res \<Rightarrow>
                  let rw1 = rw\<lparr>rwHeader := copyHeader (rwHeader rw) (ResHeader res)\<rparr>
                  in case redirect_filter (forbiddens p) res of
                       IndexOutOfRange \<Rightarrow>
                         \<lparr>outcome = Panicked, mem = h', outbound = Some outreq, sent = [outreq],
                          client = rw1, backend_body = map_option untouched (Body res),
                          latency_writer = None\<rparr>
                     | Yes \<Rightarrow>
                         \<lparr>outcome = Returned, mem = h', outbound = Some outreq, sent = [outreq],
                          client = WriteHeader rw1 404,
                          backend_body = map_option untouched (Body res),
                          latency_writer = None\<rparr>
                     | No \<Rightarrow>
                         let rw2 = WriteHeader rw1 (StatusCode res);
                             (oc, rw3, bs, d) = relay_body p rw2 res
                         in \<lparr>outcome = oc, mem = h', outbound = Some outreq, sent = [outreq],
                             client = rw3, backend_body = bs, latency_writer = d\<rparr>))"

section \<open>The junction of the joined path\<close>

text \<open>
  The two sides of the junction are \<open>a\<close> without its one trailing slash and \<open>b\<close> without
  its one leading slash (where they have one).  The junction is single when the result
  is the left side, one slash, the right side, and that slash has no slash next to it:
  no slash is missing and none is doubled.
\<close>

definition junction_single :: "string \<Rightarrow> string \<Rightarrow> bool" where
  "junction_single a b =
     (let a' = (if HasSuffix a ''/'' then butlast a else a);
          b' = (if HasPrefix b ''/'' then drop 1 b else b)
      in singleJoiningSlash a b = a' @ ''/'' @ b' \<and> \<not> HasSuffix a' ''/'' \<and> \<not> HasPrefix b' ''/'')"

lemma HasPrefix_slash: "HasPrefix b ''/'' \<longleftrightarrow> (\<exists>b'. b = CHR ''/'' # b')"
  by (cases b) (auto simp: HasPrefix_def)

lemma HasSuffix_slash: "HasSuffix a ''/'' \<longleftrightarrow> (\<exists>a'. a = a' @ ''/'')"
  by (cases a rule: rev_cases) (auto simp: HasSuffix_def)

lemma HasPrefix_slash2: "HasPrefix b ''//'' \<longleftrightarrow> (\<exists>b'. b = CHR ''/'' # CHR ''/'' # b')"
  by (cases b; cases "tl b") (auto simp: HasPrefix_def)

lemma HasSuffix_slash2: "HasSuffix a ''//'' \<longleftrightarrow> (\<exists>a'. a = a' @ ''//'')"
proof (cases a rule: rev_cases)
  case Nil
  then show ?thesis by (simp add: HasSuffix_def)
next
  case (snoc ys y)
  show ?thesis
  proof (cases ys rule: rev_cases)
    case Nil
    with snoc show ?thesis by (simp add: HasSuffix_def)
  next
    case (snoc zs z)
    with \<open>a = ys @ [y]\<close> show ?thesis by (auto simp: HasSuffix_def)
  qed
qed

text \<open>
  Claim C8, as the code has it.  \<open>singleJoiningSlash a b\<close> follows the three-case rule:
  one slash is dropped when \<open>a\<close> ends and \<open>b\<close> starts with a slash, one is inserted when
  neither does, and the strings are concatenated otherwise.  The result therefore is
  \<open>a\<close> without one trailing slash, a slash, \<open>b\<close> without one leading slash: a slash is
  never missing.  The junction is free of a double slash exactly when \<open>a\<close> does not end
  with two slashes and \<open>b\<close> does not start with two.
\<close>

theorem singleJoiningSlash_rule:
  "(HasSuffix a ''/'' \<and> HasPrefix b ''/'' \<longrightarrow> singleJoiningSlash a b = a @ drop 1 b) \<and>
   (\<not> HasSuffix a ''/'' \<and> \<not> HasPrefix b ''/'' \<longrightarrow> singleJoiningSlash a b = a @ ''/'' @ b) \<and>
   (HasSuffix a ''/'' \<noteq> HasPrefix b ''/'' \<longrightarrow> singleJoiningSlash a b = a @ b) \<and>
   singleJoiningSlash a b =
     (if HasSuffix a ''/'' then butlast a else a) @ ''/'' @ (if HasPrefix b ''/'' then drop 1 b else b) \<and>
   (junction_single a b \<longleftrightarrow> \<not> HasSuffix a ''//'' \<and> \<not> HasPrefix b ''//'')"
proof -
  have rule: "singleJoiningSlash a b =
     (if HasSuffix a ''/'' then butlast a else a) @ ''/'' @ (if HasPrefix b ''/'' then drop 1 b else b)"
    by (auto simp: singleJoiningSlash_def HasPrefix_slash HasSuffix_slash)
  have a2: "HasSuffix a ''//'' \<longleftrightarrow> HasSuffix a ''/'' \<and> HasSuffix (butlast a) ''/''"
    by (auto simp: HasSuffix_slash HasSuffix_slash2 butlast_append)
  have b2: "HasPrefix b ''//'' \<longleftrightarrow> HasPrefix b ''/'' \<and> HasPrefix (drop 1 b) ''/''"
    by (auto simp: HasPrefix_slash HasPrefix_slash2)
  have "junction_single a b \<longleftrightarrow> \<not> HasSuffix a ''//'' \<and> \<not> HasPrefix b ''//''"
    unfolding junction_single_def Let_def using rule a2 b2 by auto
  moreover have "HasSuffix a ''/'' \<and> HasPrefix b ''/'' \<longrightarrow> singleJoiningSlash a b = a @ drop 1 b"
    by (simp add: singleJoiningSlash_def)
  moreover have "\<not> HasSuffix a ''/'' \<and> \<not> HasPrefix b ''/'' \<longrightarrow> singleJoiningSlash a b = a @ ''/'' @ b"
    by (simp add: singleJoiningSlash_def)
  moreover have "HasSuffix a ''/'' \<noteq> HasPrefix b ''/'' \<longrightarrow> singleJoiningSlash a b = a @ b"
    by (auto simp: singleJoiningSlash_def)
  ultimately show ?thesis using rule by blast
qed

text \<open>
  The rule at the three kinds of junction: \<open>/base/\<close> with \<open>/dir\<close>, \<open>/base\<close> with \<open>dir\<close>,
  \<open>/base\<close> with \<open>/dir\<close>.
\<close>

theorem singleJoiningSlash_rule_witness:
  "singleJoiningSlash ''/base/'' ''/dir'' = ''/base/dir'' \<and>
   singleJoiningSlash ''/base'' ''dir'' = ''/base/dir'' \<and>
   singleJoiningSlash ''/base'' ''/dir'' = ''/base/dir'' \<and>
   junction_single ''/base/'' ''/dir''"
  using singleJoiningSlash_rule [of "''/base/''" "''/dir''"]
    singleJoiningSlash_rule [of "''/base''" "''dir''"]
    singleJoiningSlash_rule [of "''/base''" "''/dir''"]
  by (simp add: HasPrefix_def HasSuffix_def)

text \<open>
  Claim C8 as stated fails: joining \<open>a/\<close> and \<open>//c\<close> drops one slash and leaves two at
  the junction.
\<close>

theorem singleJoiningSlash_double_slash:
  "singleJoiningSlash ''a/'' ''//c'' = ''a//c'' \<and> \<not> junction_single ''a/'' ''//c''"
  by (simp add: junction_single_def singleJoiningSlash_def HasPrefix_def HasSuffix_def)

section \<open>Requests as the server delivers them, and an example\<close>

text \<open>
  The server hands the handler a request whose URL pointer and header map are not nil.
\<close>

definition well_formed :: "heap \<Rightarrow> request \<Rightarrow> bool" where
  "well_formed h req =
     ((case URL req of None \<Rightarrow> False | Some a \<Rightarrow> a < length (urls h)) \<and>
      (case Header req of None \<Rightarrow> False | Some a \<Rightarrow> a < length (hmaps h)))"

text \<open>
  The header map of the outbound request, as it stands in the store when the handler is
  done.
\<close>

definition outbound_header :: "result \<Rightarrow> header" where
  "outbound_header r =
     (case outbound r of None \<Rightarrow> [] | Some outreq \<Rightarrow> load_header (mem r) (Header outreq))"

text \<open>
  The example of the specification: backend authority \<open>backend:9000\<close>, public domain
  \<open>example.com\<close>, forbidden prefix \<open>http://evil.test\<close>.  The proxy is what \<open>New\<close> and
  \<open>Forbidden\<close> build from the parsed \<open>http://backend:9000\<close>.  The request is for
  \<open>/proxy?a=1\<close> from \<open>1.2.3.4:5678\<close>; the store holds its URL and the header map \<open>m\<close>.
\<close>

definition backend_target :: url where
  "backend_target =
     \<lparr>Scheme = ''http'', Host = ''backend:9000'', Path = '''', RawPath = '''', RawQuery = ''''\<rparr>"

definition example_proxy :: ReverseProxy where
  "example_proxy =
     Forbidden ((newSingleHostReverseProxy backend_target)
                  \<lparr>DomainProxy := ''backend:9000'', Domain := ''example.com''\<rparr>)
       ''http://evil.test''"

definition example_request :: request where
  "example_request =
     \<lparr>URL = Some 0, Proto = ''HTTP/1.1'', ProtoMajor = 1, ProtoMinor = 1, Header = Some 0,
      Close = False, ReqHost = ''example.com'', RemoteAddr = ''1.2.3.4:5678''\<rparr>"

definition example_url :: url where
  "example_url =
     \<lparr>Scheme = '''', Host = '''', Path = ''/proxy'', RawPath = '''', RawQuery = ''a=1''\<rparr>"

definition example_store :: "header \<Rightarrow> heap" where
  "example_store m = \<lparr>urls = [example_url], hmaps = [m]\<rparr>"

definition fresh_writer :: ResponseWriter where
  "fresh_writer = \<lparr>rwHeader = [], status = None, wrote = [], room = None, canFlush = True\<rparr>"

text \<open>The outbound request of the example, and its URL as the Director leaves it.\<close>

definition example_outreq :: request where
  "example_outreq = example_request\<lparr>ReqHost := ''backend:9000''\<rparr>"

definition example_outurl :: url where
  "example_outurl =
     \<lparr>Scheme = ''http'', Host = ''backend:9000'', Path = ''/proxy'',
      RawPath = ''/proxy?a=1'', RawQuery = ''''\<rparr>"

text \<open>Three backends: one that cannot be reached, one that redirects, one that answers.\<close>

definition unreachable :: RoundTripper where
  "unreachable h r = Inl ''connection refused''"

definition redirecting :: RoundTripper where
  "redirecting h r =
     Inr \<lparr>StatusCode = 302, ResHeader = [(''Location'', [''http://evil.test/x''])],
          Body = Some \<lparr>chunks = [''moved''], broken = False\<rparr>\<rparr>"


section \<open>Facts about the handler\<close>

lemma ServeHTTP_mem: "mem (ServeHTTP D p h rw req) = fst (rewrite_request p h req)"
  by (simp add: ServeHTTP_def Let_def split: prod.splits option.splits sum.splits check.splits)

lemma ServeHTTP_outbound: "outbound (ServeHTTP D p h rw req) = snd (rewrite_request p h req)"
  by (simp add: ServeHTTP_def Let_def split: prod.splits option.splits sum.splits check.splits)

lemma ServeHTTP_sent:
  "sent (ServeHTTP D p h rw req) =
     (case snd (rewrite_request p h req) of None \<Rightarrow> [] | Some outreq \<Rightarrow> [outreq])"
  by (simp add: ServeHTTP_def Let_def split: prod.splits option.splits sum.splits check.splits)

lemma ServeHTTP_error:
  assumes "rewrite_request p h req = (h', Some outreq)"
    and "transport_of D p h' outreq = Inl err"
  shows "ServeHTTP D p h rw req =
     \<lparr>outcome = Returned, mem = h', outbound = Some outreq, sent = [outreq],
      client = WriteHeader rw 500, backend_body = None, latency_writer = None\<rparr>"
  using assms by (simp add: ServeHTTP_def)

lemma ServeHTTP_response:
  assumes "rewrite_request p h req = (h', Some outreq)"
    and "transport_of D p h' outreq = Inr res"
  shows "ServeHTTP D p h rw req =
     (let rw1 = rw\<lparr>rwHeader := copyHeader (rwHeader rw) (ResHeader res)\<rparr>
      in case redirect_filter (forbiddens p) res of
           IndexOutOfRange \<Rightarrow>
             \<lparr>outcome = Panicked, mem = h', outbound = Some outreq, sent = [outreq],
              client = rw1, backend_body = map_option untouched (Body res),
              latency_writer = None\<rparr>
         | Yes \<Rightarrow>
             \<lparr>outcome = Returned, mem = h', outbound = Some outreq, sent = [outreq],
              client = WriteHeader rw1 404,
              backend_body = map_option untouched (Body res),
              latency_writer = None\<rparr>
         | No \<Rightarrow>
             let rw2 = WriteHeader rw1 (StatusCode res);
                 (oc, rw3, bs, d) = relay_body p rw2 res
             in \<lparr>outcome = oc, mem = h', outbound = Some outreq, sent = [outreq],
                 client = rw3, backend_body = bs, latency_writer = d\<rparr>)"
  using assms by (simp add: ServeHTTP_def)

lemma scan_forbiddens_iff: "scan_forbiddens loc fs \<longleftrightarrow> (\<exists>f \<in> set fs. HasPrefix loc f)"
  by (induction fs) auto

lemma canonical_Connection: "CanonicalMIMEHeaderKey ''Connection'' = ''Connection''"
  by (simp add: CanonicalMIMEHeaderKey_def validHeaderFieldByte_def Let_def)

lemma canonical_Forwarded: "CanonicalMIMEHeaderKey ''X-Forwarded-For'' = ''X-Forwarded-For''"
  by (simp add: CanonicalMIMEHeaderKey_def validHeaderFieldByte_def Let_def)

lemma map_of_Set: "map_of (Set m key v) (CanonicalMIMEHeaderKey key) = Some [v]"
  by (simp add: Set_def update_conv')

lemma map_of_Del: "map_of (Del m key) (CanonicalMIMEHeaderKey key) = None"
  by (simp add: Del_def delete_conv')

text \<open>
  The outbound request of a well-formed request, when the header map is shared and when
  it is copied.
\<close>

lemma rewrite_request_shared:
  assumes "URL req = Some a" "a < length (urls h)" "Header req = Some b" "b < length (hmaps h)"
    and "Get (hmaps h ! b) ''Connection'' = ''''"
  shows "rewrite_request p h req =
     (let m = (case SplitHostPort (RemoteAddr req) of
                 Inr (clientIp, port) \<Rightarrow> Set (hmaps h ! b) ''X-Forwarded-For'' clientIp
               | Inl err \<Rightarrow> hmaps h ! b)
      in (\<lparr>urls = (urls h)[a := (Director p (urls h ! a))\<lparr>Host := DomainProxy p\<rparr>],
           hmaps = (hmaps h)[b := m]\<rparr>,
          Some (req\<lparr>Proto := ''HTTP/1.1'', ProtoMajor := 1, ProtoMinor := 1, Close := False,
                    ReqHost := DomainProxy p\<rparr>)))"
  using assms
  by (auto simp: rewrite_request_def load_url_def store_url_def load_header_def
      update_header_def Let_def split: sum.splits prod.splits)

lemma rewrite_request_copied:
  assumes "URL req = Some a" "a < length (urls h)" "Header req = Some b" "b < length (hmaps h)"
    and "Get (hmaps h ! b) ''Connection'' \<noteq> ''''"
  shows "rewrite_request p h req =
     (let m0 = Del (copyHeader [] (hmaps h ! b)) ''Connection'';
          m = (case SplitHostPort (RemoteAddr req) of
                 Inr (clientIp, port) \<Rightarrow> Set m0 ''X-Forwarded-For'' clientIp
               | Inl err \<Rightarrow> m0)
      in (\<lparr>urls = (urls h)[a := (Director p (urls h ! a))\<lparr>Host := DomainProxy p\<rparr>],
           hmaps = hmaps h @ [m]\<rparr>,
          Some (req\<lparr>Proto := ''HTTP/1.1'', ProtoMajor := 1, ProtoMinor := 1, Close := False,
                    Header := Some (length (hmaps h)), ReqHost := DomainProxy p\<rparr>)))"
  using assms
  by (auto simp: rewrite_request_def load_url_def store_url_def load_header_def
      update_header_def make_header_def Let_def nth_append split: sum.splits prod.splits)

lemma rewrite_request_well_formed:
  assumes "well_formed h req"
  shows "\<exists>h' outreq. rewrite_request p h req = (h', Some outreq)"
proof -
  from assms obtain a b where
    ab: "URL req = Some a" "a < length (urls h)" "Header req = Some b" "b < length (hmaps h)"
    by (auto simp: well_formed_def split: option.splits)
  show ?thesis
    using rewrite_request_shared [OF ab, of p] rewrite_request_copied [OF ab, of p]
    by (cases "Get (hmaps h ! b) ''Connection'' = ''''") (simp_all add: Let_def)
qed

lemma example_well_formed: "well_formed (example_store m) example_request"
  by (simp add: well_formed_def example_store_def example_request_def)

lemma example_address: "SplitHostPort (RemoteAddr example_request) = Inr (''1.2.3.4'', ''5678'')"
  by (simp add: example_request_def SplitHostPort_def LastIndexByte_def)

lemma example_rewrite:
  "rewrite_request example_proxy (example_store [(''Accept'', [''*/*''])]) example_request =
     (\<lparr>urls = [example_outurl],
       hmaps = [[(''Accept'', [''*/*'']), (''X-Forwarded-For'', [''1.2.3.4''])]]\<rparr>,
      Some example_outreq)"
  by code_simp

section \<open>The claims about the outbound request and the error paths\<close>

text \<open>
  Claim C1 fails on the code.  The example request has no \<open>Connection\<close> header, so the
  outbound request keeps the header map of the inbound request, and setting
  \<open>X-Forwarded-For\<close> writes into that map: after the call the map of the inbound request
  holds an entry it did not hold before, whatever the transport and the response writer.
\<close>

theorem inbound_header_map_mutated:
  "load_header (example_store [(''Accept'', [''*/*''])]) (Header example_request) =
     [(''Accept'', [''*/*''])] \<and>
   load_header (mem (ServeHTTP D example_proxy (example_store [(''Accept'', [''*/*''])]) rw example_request))
       (Header example_request) =
     [(''Accept'', [''*/*'']), (''X-Forwarded-For'', [''1.2.3.4''])]"
  unfolding ServeHTTP_mem example_rewrite
  by (simp add: load_header_def example_store_def example_request_def)

text \<open>
  When the inbound request has a first \<open>Connection\<close> value that is not empty, the
  handler copies: the outbound request has a map of its own without a \<open>Connection\<close>
  entry, and the map of the inbound request is as it was.
\<close>

lemma connection_stripped:
  assumes "well_formed h req"
    and "Get (load_header h (Header req)) ''Connection'' \<noteq> ''''"
  shows "outbound (ServeHTTP D p h rw req) \<noteq> None \<and>
         Header (the (outbound (ServeHTTP D p h rw req))) \<noteq> Header req \<and>
         map_of (outbound_header (ServeHTTP D p h rw req)) ''Connection'' = None \<and>
         load_header (mem (ServeHTTP D p h rw req)) (Header req) = load_header h (Header req)"
proof -
  from assms(1) obtain a b where
    ab: "URL req = Some a" "a < length (urls h)" "Header req = Some b" "b < length (hmaps h)"
    by (auto simp: well_formed_def split: option.splits)
  with assms(2) have get: "Get (hmaps h ! b) ''Connection'' \<noteq> ''''"
    by (simp add: load_header_def)
  have del: "map_of (Del m ''Connection'') ''Connection'' = None" for m
    using map_of_Del [of m "''Connection''"] by (simp add: canonical_Connection)
  have set: "map_of (Set m ''X-Forwarded-For'' v) ''Connection'' = map_of m ''Connection''" for m v
    by (simp add: Set_def update_conv' canonical_Forwarded)
  show ?thesis
    using rewrite_request_copied [OF ab get, of p] ab del set
    by (auto simp: outbound_header_def ServeHTTP_mem ServeHTTP_outbound
        load_header_def Let_def nth_append split: sum.splits)
qed

text \<open>
  Claim C2, as the code has it.  For an inbound request with a query string, the
  Director appends the query unchanged, after a question mark, to the joined path in
  \<open>RawPath\<close>, and sets \<open>RawQuery\<close> of the outbound URL to the query of the target.
\<close>

theorem director_query:
  "RawQuery u \<noteq> '''' \<Longrightarrow>
     RawPath (director target u) = singleJoiningSlash (Path target) (Path u) @ ''?'' @ RawQuery u \<and>
     RawQuery (director target u) = RawQuery target"
  by (simp add: director_def Let_def)

theorem director_query_witness:
  "RawQuery example_url \<noteq> '''' \<and>
   RawPath (director backend_target example_url) = ''/proxy?a=1'' \<and>
   RawQuery (director backend_target example_url) = ''''"
  using director_query [of example_url backend_target]
  by (simp add: example_url_def backend_target_def singleJoiningSlash_def HasSuffix_def HasPrefix_def)

text \<open>
  Claim C2 as stated fails: the proxy for \<open>backend:9000\<close> turns the query \<open>a=1\<close> of the
  inbound request into the empty query of its target.
\<close>

theorem director_query_replaced:
  "RawQuery example_url = ''a=1'' \<and> RawQuery (Director example_proxy example_url) = ''''"
  by (simp add: example_url_def example_proxy_def Forbidden_def newSingleHostReverseProxy_def
      director_def backend_target_def Let_def)

text \<open>
  Claim C4.  When the backend answers 301, 302 or 307 with a \<open>Location\<close> whose first
  value starts with one of the forbidden prefixes, the handler returns with status 404
  sent and no body byte written; the backend body has not been read and no latency
  writer was set up.  (The response writer is fresh: no status and no byte so far.)
\<close>

theorem forbidden_redirect:
  assumes "rewrite_request p h req = (h', Some outreq)"
    and "transport_of D p h' outreq = Inr res"
    and "StatusCode res = 301 \<or> StatusCode res = 302 \<or> StatusCode res = 307"
    and "map_of (ResHeader res) ''Location'' = Some (loc # others)"
    and "forbidden \<in> set (forbiddens p)" and "HasPrefix loc forbidden"
    and "status rw = None" and "wrote rw = []"
  shows "outcome (ServeHTTP D p h rw req) = Returned \<and>
         status (client (ServeHTTP D p h rw req)) = Some 404 \<and>
         wrote (client (ServeHTTP D p h rw req)) = [] \<and>
         backend_body (ServeHTTP D p h rw req) = map_option untouched (Body res) \<and>
         latency_writer (ServeHTTP D p h rw req) = None"
proof -
  have "scan_forbiddens loc (forbiddens p)"
    using assms(5,6) scan_forbiddens_iff by blast
  with assms(3,4) have "redirect_filter (forbiddens p) res = Yes"
    by (simp add: redirect_filter_def)
  with ServeHTTP_response [OF assms(1,2), of rw] show ?thesis
    using assms(7,8) by (simp add: WriteHeader_def)
qed

text \<open>
  The example of the specification: 302 with \<open>Location: http://evil.test/x\<close> gives 404
  and an empty body.
\<close>

theorem forbidden_redirect_witness:
  "rewrite_request example_proxy (example_store [(''Accept'', [''*/*''])]) example_request =
     (\<lparr>urls = [example_outurl],
       hmaps = [[(''Accept'', [''*/*'']), (''X-Forwarded-For'', [''1.2.3.4''])]]\<rparr>,
      Some example_outreq) \<and>
   ''http://evil.test'' \<in> set (forbiddens example_proxy) \<and>
   HasPrefix ''http://evil.test/x'' ''http://evil.test'' \<and>
   status fresh_writer = None \<and> wrote fresh_writer = [] \<and>
   outcome (ServeHTTP redirecting example_proxy (example_store [(''Accept'', [''*/*''])])
      fresh_writer example_request) = Returned \<and>
   status (client (ServeHTTP redirecting example_proxy (example_store [(''Accept'', [''*/*''])])
      fresh_writer example_request)) = Some 404 \<and>
   wrote (client (ServeHTTP redirecting example_proxy (example_store [(''Accept'', [''*/*''])])
      fresh_writer example_request)) = []"
proof -
  have t: "transport_of redirecting example_proxy h' example_outreq =
      Inr \<lparr>StatusCode = 302, ResHeader = [(''Location'', [''http://evil.test/x''])],
           Body = Some \<lparr>chunks = [''moved''], broken = False\<rparr>\<rparr>" for h'
    by (simp add: transport_of_def example_proxy_def Forbidden_def
        newSingleHostReverseProxy_def redirecting_def)
  have f: "''http://evil.test'' \<in> set (forbiddens example_proxy)"
    by (simp add: example_proxy_def Forbidden_def newSingleHostReverseProxy_def)
  have pre: "HasPrefix ''http://evil.test/x'' ''http://evil.test''"
    by (simp add: HasPrefix_def)
  have w: "status fresh_writer = None" "wrote fresh_writer = []"
    by (simp_all add: fresh_writer_def)
  from forbidden_redirect [OF example_rewrite t _ _ f pre w, of "[]"]
  show ?thesis using example_rewrite f pre w by simp
qed

text \<open>
  Claim C6.  When the one call of \<open>RoundTrip\<close> returns an error, the handler returns
  with status 500 sent and no body byte written; the outbound request was handed to the
  transport once, and there is no response body.  (The response writer is fresh.)
\<close>

theorem transport_error:
  assumes "rewrite_request p h req = (h', Some outreq)"
    and "transport_of D p h' outreq = Inl err"
    and "status rw = None" and "wrote rw = []"
  shows "outcome (ServeHTTP D p h rw req) = Returned \<and>
         status (client (ServeHTTP D p h rw req)) = Some 500 \<and>
         wrote (client (ServeHTTP D p h rw req)) = [] \<and>
         sent (ServeHTTP D p h rw req) = [outreq] \<and>
         backend_body (ServeHTTP D p h rw req) = None"
  using ServeHTTP_error [OF assms(1,2), of rw] assms(3,4) by (simp add: WriteHeader_def)

theorem transport_error_witness:
  "transport_of unreachable example_proxy
      \<lparr>urls = [example_outurl],
       hmaps = [[(''Accept'', [''*/*'']), (''X-Forwarded-For'', [''1.2.3.4''])]]\<rparr>
      example_outreq = Inl ''connection refused'' \<and>
   status fresh_writer = None \<and> wrote fresh_writer = [] \<and>
   status (client (ServeHTTP unreachable example_proxy (example_store [(''Accept'', [''*/*''])])
      fresh_writer example_request)) = Some 500 \<and>
   wrote (client (ServeHTTP unreachable example_proxy (example_store [(''Accept'', [''*/*''])])
      fresh_writer example_request)) = [] \<and>
   sent (ServeHTTP unreachable example_proxy (example_store [(''Accept'', [''*/*''])])
      fresh_writer example_request) = [example_outreq]"
proof -
  have t: "transport_of unreachable example_proxy h' example_outreq = Inl ''connection refused''" for h'
    by (simp add: transport_of_def example_proxy_def Forbidden_def
        newSingleHostReverseProxy_def unreachable_def)
  have w: "status fresh_writer = None" "wrote fresh_writer = []"
    by (simp_all add: fresh_writer_def)
  from transport_error [OF example_rewrite t w] show ?thesis using t w by simp
qed

text \<open>
  Claim C7 fails on the code.  The inbound request carries two \<open>Connection\<close> values,
  the first of them empty.  \<open>Get\<close> returns the empty first value, so nothing is copied:
  the outbound request has the very map of the inbound request, and the map still has
  its \<open>Connection\<close> entry.
\<close>

theorem connection_header_kept:
  "map_of (load_header (example_store [(''Connection'', ['''', ''upgrade''])]) (Header example_request))
       ''Connection'' = Some ['''', ''upgrade''] \<and>
   Header (the (outbound (ServeHTTP D example_proxy (example_store [(''Connection'', ['''', ''upgrade''])]) rw example_request)))
     = Header example_request \<and>
   map_of (outbound_header (ServeHTTP D example_proxy (example_store [(''Connection'', ['''', ''upgrade''])]) rw example_request))
       ''Connection'' = Some ['''', ''upgrade'']"
proof -
  have "rewrite_request example_proxy (example_store [(''Connection'', ['''', ''upgrade''])]) example_request =
      (\<lparr>urls = [example_outurl],
        hmaps = [[(''Connection'', ['''', ''upgrade'']), (''X-Forwarded-For'', [''1.2.3.4''])]]\<rparr>,
       Some example_outreq)"
    by code_simp
  then show ?thesis
    by (simp add: ServeHTTP_mem ServeHTTP_outbound outbound_header_def load_header_def
        example_request_def example_outreq_def example_store_def)
qed

text \<open>
  Claim C10.  When the remote address of a well-formed inbound request splits into
  host and port, the outbound request is built and handed to the transport, and the
  \<open>X-Forwarded-For\<close> entry of its header map is the one-element list of that host,
  whatever the inbound request held under that key.
\<close>

theorem forwarded_for:
  assumes "well_formed h req"
    and "SplitHostPort (RemoteAddr req) = Inr (clientIp, port)"
  shows "outbound (ServeHTTP D p h rw req) \<noteq> None \<and>
         sent (ServeHTTP D p h rw req) = [the (outbound (ServeHTTP D p h rw req))] \<and>
         map_of (outbound_header (ServeHTTP D p h rw req)) ''X-Forwarded-For'' = Some [clientIp]"
proof -
  from assms(1) obtain a b where
    ab: "URL req = Some a" "a < length (urls h)" "Header req = Some b" "b < length (hmaps h)"
    by (auto simp: well_formed_def split: option.splits)
  show ?thesis
  proof (cases "Get (hmaps h ! b) ''Connection'' = ''''")
    case True
    show ?thesis
      using rewrite_request_shared [OF ab True, of p] assms(2) ab map_of_Set [of _ "''X-Forwarded-For''" clientIp]
      by (simp add: outbound_header_def ServeHTTP_mem ServeHTTP_outbound ServeHTTP_sent
          load_header_def Let_def canonical_Forwarded)
  next
    case False
    show ?thesis
      using rewrite_request_copied [OF ab False, of p] assms(2) ab map_of_Set [of _ "''X-Forwarded-For''" clientIp]
      by (simp add: outbound_header_def ServeHTTP_mem ServeHTTP_outbound ServeHTTP_sent
          load_header_def Let_def canonical_Forwarded)
  qed
qed

text \<open>
  The client sends two \<open>X-Forwarded-For\<close> values of its own; the backend sees the
  address of the client alone.
\<close>

theorem forwarded_for_witness:
  "well_formed (example_store [(''X-Forwarded-For'', [''9.9.9.9'', ''8.8.8.8''])]) example_request \<and>
   SplitHostPort (RemoteAddr example_request) = Inr (''1.2.3.4'', ''5678'') \<and>
   map_of (outbound_header (ServeHTTP unreachable example_proxy
       (example_store [(''X-Forwarded-For'', [''9.9.9.9'', ''8.8.8.8''])]) fresh_writer example_request))
     ''X-Forwarded-For'' = Some [''1.2.3.4'']"
  using forwarded_for [OF example_well_formed example_address]
    example_well_formed example_address
  by simp

section \<open>The text substitution and the fate of the backend body\<close>




declare Count.simps [simp del]


















definition streaming :: RoundTripper where
  "streaming h r =
     Inr \<lparr>StatusCode = 200, ResHeader = [(''Content-Type'', [''text/html''])],
          Body = Some \<lparr>chunks = [''<p>'', ''hello'', ''</p>''], broken = False\<rparr>\<rparr>"



















section \<open>The flush task\<close>

text \<open>
  \<open>maxLatencyWriter.Write\<close> (http.go, lines 224--236) and \<open>flushLoop\<close> (lines 238--252)
  run in two goroutines that share the mutex \<open>m.lk\<close> and the unbuffered channel
  \<open>m.done\<close>.  The model is a transition system over the places where the two goroutines
  can stand.

  The copying goroutine runs \<open>io.Copy\<close> with the latency writer as destination:
  \<^item> \<open>Idle\<close>: in the copy loop, between two calls of \<open>Write\<close>;
  \<^item> \<open>Writing\<close>: inside \<open>Write\<close>, holding \<open>m.lk\<close>, the channel made and the flush task
    started, about to call \<open>m.dst.Write\<close>;
  \<^item> \<open>Sending\<close>: inside \<open>Write\<close>, holding \<open>m.lk\<close>, the write has failed, at the send
    \<open>m.done <- true\<close>;
  \<^item> \<open>Finished\<close>: \<open>io.Copy\<close> has returned, and with it \<open>ServeHTTP\<close>.

  The flush task:
  \<^item> \<open>NotStarted\<close>: no \<open>Write\<close> has been called yet;
  \<^item> \<open>Selecting\<close>: waiting in the \<open>select\<close> for a tick or for \<open>m.done\<close>;
  \<^item> \<open>Locking\<close>: it has taken a tick and waits for \<open>m.lk\<close>;
  \<^item> \<open>Flushing\<close>: holding \<open>m.lk\<close>, calling \<open>m.dst.Flush\<close>;
  \<^item> \<open>Stopped\<close>: it has received from \<open>m.done\<close> and returned.
\<close>

datatype copier = Idle | Writing | Sending | Finished

datatype flusher = NotStarted | Selecting | Locking | Flushing | Stopped

record tasks =
  copying :: copier
  flushing :: flusher
  flushes :: nat
  signals :: nat

text \<open>
  The mutex is held by the copying goroutine inside \<open>Write\<close> and by the flush task while
  it flushes.
\<close>

definition lock_free :: "tasks \<Rightarrow> bool" where
  "lock_free s = (copying s \<noteq> Writing \<and> copying s \<noteq> Sending \<and> flushing s \<noteq> Flushing)"

text \<open>
  The steps.  \<open>Enter\<close>: \<open>Write\<close> is called and gets the mutex; the first call makes the
  channel and starts the flush task.  \<open>WriteOk\<close>, \<open>WriteFail\<close>: the underlying write
  returns without or with an error; without, \<open>Write\<close> unlocks and returns.  \<open>Handover\<close>:
  the send on \<open>m.done\<close> meets the receive in the \<open>select\<close>; the flush task returns, and
  \<open>Write\<close> unlocks and returns the error, which ends the copy.  \<open>Eof\<close>: the source is at
  its end and the copy returns.  \<open>Tick\<close>: the \<open>select\<close> takes a tick of the ticker.
  \<open>FlushLock\<close>, \<open>FlushUnlock\<close>: the flush task gets the mutex, flushes, and gives the
  mutex back.  A step that cannot be taken in a state yields \<open>None\<close>.
\<close>

datatype event = Enter | WriteOk | WriteFail | Handover | Eof | Tick | FlushLock | FlushUnlock

fun step :: "event \<Rightarrow> tasks \<Rightarrow> tasks option" where
  "step Enter s =
     (if copying s = Idle \<and> lock_free s
      then Some (s\<lparr>copying := Writing,
                   flushing := (if flushing s = NotStarted then Selecting else flushing s)\<rparr>)
      else None)"
| "step WriteOk s = (if copying s = Writing then Some (s\<lparr>copying := Idle\<rparr>) else None)"
| "step WriteFail s = (if copying s = Writing then Some (s\<lparr>copying := Sending\<rparr>) else None)"
| "step Handover s =
     (if copying s = Sending \<and> flushing s = Selecting
      then Some (s\<lparr>copying := Finished, flushing := Stopped, signals := signals s + 1\<rparr>)
      else None)"
| "step Eof s = (if copying s = Idle then Some (s\<lparr>copying := Finished\<rparr>) else None)"
| "step Tick s = (if flushing s = Selecting then Some (s\<lparr>flushing := Locking\<rparr>) else None)"
| "step FlushLock s =
     (if flushing s = Locking \<and> lock_free s then Some (s\<lparr>flushing := Flushing\<rparr>) else None)"
| "step FlushUnlock s =
     (if flushing s = Flushing
      then Some (s\<lparr>flushing := Selecting, flushes := flushes s + 1\<rparr>)
      else None)"

fun run :: "event list \<Rightarrow> tasks \<Rightarrow> tasks option" where
  "run [] s = Some s"
| "run (e # es) s = (case step e s of None \<Rightarrow> None | Some s' \<Rightarrow> run es s')"

definition enabled :: "tasks \<Rightarrow> event list" where
  "enabled s =
     filter (\<lambda>e. step e s \<noteq> None)
       [Enter, WriteOk, WriteFail, Handover, Eof, Tick, FlushLock, FlushUnlock]"

definition start :: tasks where
  "start = \<lparr>copying = Idle, flushing = NotStarted, flushes = 0, signals = 0\<rparr>"

lemma stopped_by_handover:
  "step e s = Some s' \<Longrightarrow> flushing s' = Stopped \<Longrightarrow> flushing s \<noteq> Stopped \<Longrightarrow>
     e = Handover \<and> copying s = Sending"
  by (cases e) (auto split: if_splits)

lemma finished_stays:
  "step e s = Some s' \<Longrightarrow> copying s = Finished \<Longrightarrow>
     copying s' = Finished \<and> signals s' = signals s \<and> (flushing s' = Stopped \<longleftrightarrow> flushing s = Stopped)"
  by (cases e) (auto simp: lock_free_def split: if_splits)

text \<open>
  Once the copy has returned, no step stops a flush task that is still running.
\<close>

lemma never_stopped:
  "run es s = Some s' \<Longrightarrow> copying s = Finished \<Longrightarrow> flushing s \<noteq> Stopped \<Longrightarrow>
     copying s' = Finished \<and> flushing s' \<noteq> Stopped"
proof (induction es arbitrary: s)
  case Nil
  then show ?case by simp
next
  case (Cons e es)
  from Cons.prems(1) obtain t where t: "step e s = Some t" "run es t = Some s'"
    by (auto split: option.splits)
  from finished_stays [OF t(1) Cons.prems(2)] Cons.prems(3)
  have "copying t = Finished" "flushing t \<noteq> Stopped" by auto
  with Cons.IH [OF t(2)] show ?case by blast
qed

text \<open>
  While the copying goroutine stands at the send it holds the mutex.  A flush task that
  has taken a tick then waits for the mutex, and nothing can move.
\<close>

lemma deadlock:
  "copying s = Sending \<Longrightarrow> flushing s = Locking \<Longrightarrow> step e s = None"
  by (cases e) (auto simp: lock_free_def)

lemma step_keeps_running:
  assumes "step e s = Some s'" and "e \<noteq> WriteFail"
    and "copying s \<noteq> Sending" and "flushing s \<noteq> Stopped"
  shows "copying s' \<noteq> Sending \<and> flushing s' \<noteq> Stopped"
  using assms by (cases e) (auto split: if_splits)

text \<open>
  In a run without a failing write the flush task is never stopped, however the copy
  ends.
\<close>

lemma no_failure_no_stop:
  "run es s = Some s' \<Longrightarrow> WriteFail \<notin> set es \<Longrightarrow> copying s \<noteq> Sending \<Longrightarrow>
     flushing s \<noteq> Stopped \<Longrightarrow> flushing s' \<noteq> Stopped"
proof (induction es arbitrary: s)
  case Nil
  then show ?case by simp
next
  case (Cons e es)
  from Cons.prems(1) obtain t where t: "step e s = Some t" "run es t = Some s'"
    by (auto split: option.splits)
  from Cons.prems(2) have "e \<noteq> WriteFail" "WriteFail \<notin> set es" by auto
  with step_keeps_running [OF t(1) _ Cons.prems(3,4)] Cons.IH [OF t(2)]
  show ?case by blast
qed

text \<open>The signal is sent at most once: it is the one that stops the flush task.\<close>

lemma one_signal:
  "run es s = Some s' \<Longrightarrow> signals s = (if flushing s = Stopped then 1 else 0) \<Longrightarrow>
     signals s' = (if flushing s' = Stopped then 1 else 0)"
proof (induction es arbitrary: s)
  case Nil
  then show ?case by simp
next
  case (Cons e es)
  from Cons.prems(1) obtain t where t: "step e s = Some t" "run es t = Some s'"
    by (auto split: option.splits)
  from t(1) Cons.prems(2) have "signals t = (if flushing t = Stopped then 1 else 0)"
    by (cases e) (auto split: if_splits)
  from Cons.IH [OF t(2) this] show ?case .
qed

text \<open>
  Claim C9 fails on the code.  First run: one chunk is written without error and the
  source is at its end.  The copy has returned, no signal was sent, and the flush task
  is still in its \<open>select\<close>, where only ticks reach it (by \<open>never_stopped\<close> it is never
  stopped; by \<open>no_failure_no_stop\<close> this is so in every run without a failing write).  Second run: the flush task takes a tick while the copying goroutine is
  inside \<open>Write\<close>, and the write fails.  The copying goroutine stands at the send and
  holds the mutex, the flush task waits for the mutex, and no step is possible: the
  send blocks for good.  Last, the handler itself: for a proxy with a flush interval
  and a backend that streams three chunks, \<open>ServeHTTP\<close> returns with the flush task
  started and no stop signal sent.
\<close>

theorem flush_task_not_stopped:
  "run [Enter, WriteOk, Eof] start =
     Some \<lparr>copying = Finished, flushing = Selecting, flushes = 0, signals = 0\<rparr> \<and>
   enabled \<lparr>copying = Finished, flushing = Selecting, flushes = 0, signals = 0\<rparr> = [Tick] \<and>
   run [Enter, Tick, WriteFail] start =
     Some \<lparr>copying = Sending, flushing = Locking, flushes = 0, signals = 0\<rparr> \<and>
   enabled \<lparr>copying = Sending, flushing = Locking, flushes = 0, signals = 0\<rparr> = [] \<and>
   outcome (ServeHTTP streaming (example_proxy\<lparr>FlushInterval := 1000000\<rparr>)
      (example_store [(''Accept'', [''*/*''])]) fresh_writer example_request) = Returned \<and>
   wrote (client (ServeHTTP streaming (example_proxy\<lparr>FlushInterval := 1000000\<rparr>)
      (example_store [(''Accept'', [''*/*''])]) fresh_writer example_request)) = ''<p>hello</p>'' \<and>
   latency_writer (ServeHTTP streaming (example_proxy\<lparr>FlushInterval := 1000000\<rparr>)
      (example_store [(''Accept'', [''*/*''])]) fresh_writer example_request) =
     Some \<lparr>started = True, stop_sends = 0\<rparr>"
  by code_simp

end
